theory Spec2Isabelle
  imports Complex_Main "HOL-Library.Word" "HOL-Library.AList"
begin

section \<open>Python values, errors and sequence operations\<close>

text \<open>
  The exceptions the modelled code can raise. \<open>ValueError\<close> carries its message.
\<close>

datatype error =
    AssertionError
  | AttributeError
  | IndexError
  | ValueError string
  | ZeroDivisionError

text \<open>
  A list comprehension \<open>[f(x) for x in xs]\<close> whose body can raise: the elements are
  evaluated from left to right and the first exception ends the comprehension.
\<close>

fun comprehension :: "('a \<Rightarrow> error + 'b) \<Rightarrow> 'a list \<Rightarrow> error + 'b list" where
  "comprehension f [] = Inr []"
| "comprehension f (x # xs) =
     (case f x of
        Inl e \<Rightarrow> Inl e
      | Inr y \<Rightarrow> (case comprehension f xs of Inl e \<Rightarrow> Inl e | Inr ys \<Rightarrow> Inr (y # ys)))"

text \<open>
  \<open>xs[i]\<close> on a Python list: a negative index counts from the end, an index outside
  \<open>[-len, len)\<close> raises IndexError.
\<close>

definition py_index :: "'a list \<Rightarrow> int \<Rightarrow> error + 'a" where
  "py_index xs i =
     (if 0 \<le> i \<and> i < int (length xs) then Inr (xs ! nat i)
      else if i < 0 \<and> - int (length xs) \<le> i then Inr (xs ! nat (int (length xs) + i))
      else Inl IndexError)"

text \<open>
  A slice bound of Python and numpy: a negative bound counts from the end, and every
  bound is clipped to \<open>[0, len]\<close>. Slices never raise.
\<close>

definition slice_bound :: "nat \<Rightarrow> int \<Rightarrow> nat" where
  "slice_bound n k = (if k < 0 then nat (int n + k) else min (nat k) n)"

text \<open>\<open>xs[:stop]\<close> and \<open>xs[start:stop]\<close>.\<close>

definition py_slice_to :: "'a list \<Rightarrow> int \<Rightarrow> 'a list" where
  "py_slice_to xs stop = take (slice_bound (length xs) stop) xs"

definition py_slice :: "'a list \<Rightarrow> int \<Rightarrow> int \<Rightarrow> 'a list" where
  "py_slice xs start stop =
     drop (slice_bound (length xs) start) (take (slice_bound (length xs) stop) xs)"

text \<open>\<open>xs.index(x)\<close>: the first position of \<open>x\<close>, ValueError when there is none.\<close>

fun list_index :: "string list \<Rightarrow> string \<Rightarrow> error + int" where
  "list_index [] x = Inl (ValueError ([CHR 0x27] @ x @ [CHR 0x27] @ '' is not in list''))"
| "list_index (y # ys) x =
     (if y = x then Inr 0
      else (case list_index ys x of Inl e \<Rightarrow> Inl e | Inr k \<Rightarrow> Inr (k + 1)))"

section \<open>Fetched arrays\<close>

text \<open>
  The executor hands back numpy arrays of 64-bit integers (\<open>label\<close> and \<open>seq_len\<close> are
  declared \<open>int64\<close>, lines 146 and 150). \<open>astype(np.int32)\<close> keeps the low 32 bits and
  reads them as two's complement; \<open>int(id)\<close> and \<open>tolist()\<close> read the signed value.
\<close>

type_synonym int64 = "64 word"

definition astype_int32 :: "int64 \<Rightarrow> int" where
  "astype_int32 w = sint (ucast w :: 32 word)"

text \<open>
  The decoded ids of one batch, an array of shape \<open>[batch, time, beam]\<close>: one matrix per
  sample, a row per time step, \<open>beams\<close> ids in every row. The number of beams is part of
  the shape, so it is known also when there is no time step.
\<close>

record decoded =
  beams :: nat
  samples :: "int64 list list list"


text \<open>\<open>sample_infers.T\<close>: of a \<open>[time, beam]\<close> matrix, one row of length \<open>time\<close> per beam.\<close>

definition np_T :: "nat \<Rightarrow> 'a list list \<Rightarrow> 'a list list" where
  "np_T nb rows = map (\<lambda>j. map (\<lambda>row. row ! j) rows) [0..<nb]"

text \<open>
  What a run state of the predict phase holds (\<open>fetch_list\<close>, line 249):
  \<open>run_results[0]\<close> are the decoded ids, \<open>run_results[1]\<close> the sequence lengths.
\<close>

record predict_state =
  fetched_infers :: decoded
  fetched_seq_len :: "int64 list"

section \<open>TextGenerationTask._postprocessing\<close>

text \<open>
  Line 224, for one beam of sample \<open>i\<close>: the iterable
  \<open>beam_infer.tolist()[:seq_lens[i] - 2]\<close> is evaluated first (\<open>seq_lens[i]\<close> can raise
  IndexError), then every id is looked up in \<open>self._label_list\<close>.
\<close>

definition seq_result :: "string list \<Rightarrow> int list \<Rightarrow> nat \<Rightarrow> int list \<Rightarrow> error + string list" where
  "seq_result label_list seq_lens i beam_infer =
     (case py_index seq_lens (int i) of
        Inl e \<Rightarrow> Inl e
      | Inr n \<Rightarrow> comprehension (py_index label_list) (py_slice_to beam_infer (n - 2)))"

text \<open>Lines 222 to 225: the beams of one sample, in the order of \<open>sample_infers.T\<close>.\<close>

definition beam_result ::
  "string list \<Rightarrow> int list \<Rightarrow> nat \<Rightarrow> nat \<Rightarrow> int list list \<Rightarrow> error + string list list" where
  "beam_result label_list seq_lens nb i sample_infers =
     comprehension (seq_result label_list seq_lens i) (np_T nb sample_infers)"

text \<open>
  Lines 219 and 220: \<open>batch_infers\<close> and \<open>seq_lens\<close>, both cast to \<open>int32\<close>;
  \<open>seq_lens\<close> is flattened and turned into a list of Python integers.
\<close>

definition batch_infers_of :: "predict_state \<Rightarrow> int list list list" where
  "batch_infers_of batch_states =
     map (map (map astype_int32)) (samples (fetched_infers batch_states))"

definition seq_lens_of :: "predict_state \<Rightarrow> int list" where
  "seq_lens_of batch_states = map astype_int32 (fetched_seq_len batch_states)"

text \<open>Lines 218 to 226: one batch.\<close>

definition batch_postprocessing ::
  "string list \<Rightarrow> predict_state \<Rightarrow> error + string list list list" where
  "batch_postprocessing label_list batch_states =
     comprehension
       (\<lambda>(i, sample_infers).
          beam_result label_list (seq_lens_of batch_states)
            (beams (fetched_infers batch_states)) i sample_infers)
       (enumerate 0 (batch_infers_of batch_states))"

text \<open>Lines 215 to 227: the results of all batches, in order.\<close>

definition postprocessing ::
  "string list \<Rightarrow> predict_state list \<Rightarrow> error + string list list list" where
  "postprocessing label_list run_states =
     (case comprehension (batch_postprocessing label_list) run_states of
        Inl e \<Rightarrow> Inl e
      | Inr results \<Rightarrow> Inr (concat results))"

text \<open>
  The ids of beam \<open>j\<close> of sample \<open>i\<close> of a batch: row \<open>j\<close> of \<open>sample_infers.T\<close>.
\<close>

definition beam_ids :: "predict_state \<Rightarrow> nat \<Rightarrow> nat \<Rightarrow> int list" where
  "beam_ids batch_states i j =
     np_T (beams (fetched_infers batch_states)) (batch_infers_of batch_states ! i) ! j"



section \<open>TextGenerationTask._calculate_metrics\<close>

text \<open>
  What a run state of the train and test phases holds (\<open>fetch_list\<close>, line 247, with the
  metrics of \<open>_add_metrics\<close>): \<open>run_results[0]\<close> the labels and \<open>run_results[1]\<close> the
  inferred ids, both of shape \<open>[-1, 1]\<close> and kept here as the list of their rows,
  \<open>run_results[2]\<close> the sequence lengths and \<open>run_results[-1]\<close> the loss.
  \<open>loss_mean\<close> stands for \<open>np.mean(run_results[-1])\<close>; floating point numbers are
  kept as reals, and no statement below depends on their rounding.
\<close>

record eval_state =
  np_labels :: "int64 list"
  np_infers :: "int64 list"
  np_lens :: "int64 list"
  loss_mean :: real
  run_examples :: int
  run_step :: int
  run_time_begin :: real

text \<open>
  Lines 266 and 269: the rows \<open>arr[i * max_len : i * max_len + np_lens[i] - 2]\<close>. The
  start is a Python integer; the stop is computed with the \<open>int64\<close> scalar
  \<open>np_lens[i]\<close>, so it wraps around at 64 bits.
\<close>

definition slice_stop :: "nat \<Rightarrow> nat \<Rightarrow> int64 \<Rightarrow> int" where
  "slice_stop i max_len len_i = sint (word_of_nat (i * max_len) + len_i - 2 :: int64)"

definition sample_ids :: "int64 list \<Rightarrow> nat \<Rightarrow> nat \<Rightarrow> int64 \<Rightarrow> int64 list" where
  "sample_ids arr i max_len len_i =
     py_slice arr (int (i * max_len)) (slice_stop i max_len len_i)"

text \<open>\<open>[self.dataset.label_list[int(id)] for id in ...]\<close>\<close>

definition id_labels :: "string list \<Rightarrow> int64 list \<Rightarrow> error + string list" where
  "id_labels label_list ids = comprehension (\<lambda>id. py_index label_list (sint id)) ids"

text \<open>Lines 265 to 270, for sample \<open>i\<close>: first the label, then the result.\<close>

definition label_and_result ::
  "string list \<Rightarrow> eval_state \<Rightarrow> nat \<Rightarrow> nat \<Rightarrow> error + (string list \<times> string list)" where
  "label_and_result label_list run_state max_len i =
     (case id_labels label_list (sample_ids (np_labels run_state) i max_len (np_lens run_state ! i)) of
        Inl e \<Rightarrow> Inl e
      | Inr label \<Rightarrow>
          (case id_labels label_list
                  (sample_ids (np_infers run_state) i max_len (np_lens run_state ! i)) of
             Inl e \<Rightarrow> Inl e
           | Inr result \<Rightarrow> Inr (label, result)))"

text \<open>The local variables that the loop over the run states updates.\<close>

record metrics_acc =
  loss_sum :: real
  run_step_sum :: int
  run_examples_sum :: int
  labels :: "string list list"
  results :: "string list list"

text \<open>Lines 262 and 263: \<open>max_len = len(np_labels) // batch_size\<close>.\<close>

definition max_len_of :: "eval_state \<Rightarrow> nat" where
  "max_len_of run_state = length (np_labels run_state) div length (np_lens run_state)"

text \<open>
  Lines 258 to 275, for one run state. \<open>len(np_labels) // batch_size\<close> raises
  ZeroDivisionError when the batch is empty.
\<close>

definition run_state_step ::
  "string list \<Rightarrow> metrics_acc \<Rightarrow> eval_state \<Rightarrow> error + metrics_acc" where
  "run_state_step label_list acc run_state =
     (let batch_size = length (np_lens run_state)
      in if batch_size = 0 then Inl ZeroDivisionError
         else
           (let max_len = max_len_of run_state
            in case comprehension (label_and_result label_list run_state max_len)
                      [0..<batch_size] of
                 Inl e \<Rightarrow> Inl e
               | Inr pairs \<Rightarrow>
                   Inr (acc\<lparr>loss_sum := loss_sum acc + loss_mean run_state,
                            labels := labels acc @ map fst pairs,
                            results := results acc @ map snd pairs,
                            run_examples_sum := run_examples_sum acc + run_examples run_state,
                            run_step_sum := run_step_sum acc + run_step run_state\<rparr>)))"

fun run_states_loop ::
  "string list \<Rightarrow> metrics_acc \<Rightarrow> eval_state list \<Rightarrow> error + metrics_acc" where
  "run_states_loop label_list acc [] = Inr acc"
| "run_states_loop label_list acc (run_state # rest) =
     (case run_state_step label_list acc run_state of
        Inl e \<Rightarrow> Inl e
      | Inr acc' \<Rightarrow> run_states_loop label_list acc' rest)"

text \<open>Lines 253 to 256: the variables before the loop.\<close>

definition acc0 :: metrics_acc where
  "acc0 = \<lparr>loss_sum = 0, run_step_sum = 0, run_examples_sum = 0, labels = [], results = []\<rparr>"

text \<open>
  Lines 282 to 287. \<open>scores\<close> is an OrderedDict, kept as an association list in
  insertion order. \<open>compute_bleu\<close> belongs to \<open>paddlehub.compat.task.metrics\<close>, which is
  not among the files verified here: it is a parameter, and it may raise. The score is
  the first component of what it returns.
\<close>

fun metric_scores ::
  "(string list list \<Rightarrow> string list list \<Rightarrow> int \<Rightarrow> error + ('s \<times> 'r)) \<Rightarrow>
   string list list \<Rightarrow> string list list \<Rightarrow> string list \<Rightarrow> (string \<times> 's) list \<Rightarrow>
   error + (string \<times> 's) list" where
  "metric_scores compute_bleu ls rs [] scores = Inr scores"
| "metric_scores compute_bleu ls rs (metric # rest) scores =
     (if metric = ''bleu'' then
        (case compute_bleu ls rs 1 of
           Inl e \<Rightarrow> Inl e
         | Inr b \<Rightarrow> metric_scores compute_bleu ls rs rest (AList.update ''bleu'' (fst b) scores))
      else Inl (ValueError (''Not Support Metric: '' @ [CHR 0x27] @ metric @ [CHR 0x27])))"

text \<open>
  \<open>loss_sum / run_examples\<close> divides a numpy float: by zero it gives \<open>inf\<close> or \<open>nan\<close>
  and no exception.
\<close>

datatype npfloat = Finite real | NonFinite

text \<open>
  Lines 252 to 288. \<open>now\<close> is the value of \<open>time.time()\<close> at line 277, where
  \<open>run_states[0]\<close> raises IndexError for an empty list and the division of the Python
  integer \<open>run_step\<close> by a zero duration raises ZeroDivisionError.
\<close>

definition calculate_metrics ::
  "(string list list \<Rightarrow> string list list \<Rightarrow> int \<Rightarrow> error + ('s \<times> 'r)) \<Rightarrow> real \<Rightarrow>
   string list \<Rightarrow> string list \<Rightarrow> eval_state list \<Rightarrow>
   error + ((string \<times> 's) list \<times> npfloat \<times> real)" where
  "calculate_metrics compute_bleu now label_list metrics_choices run_states =
     (case run_states_loop label_list acc0 run_states of
        Inl e \<Rightarrow> Inl e
      | Inr acc \<Rightarrow>
          (case run_states of
             [] \<Rightarrow> Inl IndexError
           | first # _ \<Rightarrow>
               (let run_time_used = now - run_time_begin first
                in if run_time_used = 0 then Inl ZeroDivisionError
                   else
                     (let run_speed = real_of_int (run_step_sum acc) / run_time_used;
                          avg_loss = (if run_examples_sum acc = 0 then NonFinite
                                      else Finite (loss_sum acc / real_of_int (run_examples_sum acc)))
                      in case metric_scores compute_bleu (labels acc) (results acc)
                                metrics_choices [] of
                           Inl e \<Rightarrow> Inl e
                         | Inr scores \<Rightarrow> Inr (scores, avg_loss, run_speed)))))"

section \<open>The static graph\<close>

text \<open>
  The task builds a static graph: a call of a framework layer does not compute, it adds
  an operator to the program and returns the variable that will hold its result. A
  variable is therefore the term of the calls that made it, with the arguments the
  source passes. What the operators compute belongs to the framework. Float literals of
  the source are kept as reals; the source only negates them.
\<close>

datatype dtype = DInt64 | DFloat32

datatype initializer = Uniform real real | TruncatedNormal real | Constant real

record ParamAttr =
  attr_name :: string
  attr_initializer :: "initializer option"

record LSTMCell =
  input_size :: int
  lstm_hidden_size :: int

record AttentionDecoderCell =
  cell_num_layers :: int
  cell_hidden_size :: int
  dropout_prob :: real
  lstm_cells :: "LSTMCell list"
  init_scale :: real

text \<open>
  The two lambdas of \<open>_build_net\<close>, as the values they close over: \<open>tar_embeder\<close>
  (lines 171 to 176) holds \<open>tar_vocab_size\<close> and \<open>self.hidden_size\<close>, \<open>output_layer\<close>
  (lines 198 and 199) holds \<open>tar_vocab_size\<close>.
\<close>

datatype embedding_fn = TarEmbedder int int

datatype output_fn = OutputLayer int

record BeamSearchDecoder =
  decoder_cell :: AttentionDecoderCell
  start_token_id :: int
  end_token_id :: int
  decoder_beam_size :: int
  decoder_embedding_fn :: embedding_fn
  decoder_output_fn :: output_fn

text \<open>Nested lists of variables, as the decoder's initial states are.\<close>

datatype 'a nest = Leaf 'a | Nest "'a nest list"

text \<open>
  \<open>Given\<close> is a variable that the caller supplies (\<open>feature\<close>, \<open>token_feature\<close>, a
  query, an encoder output, a mask). \<open>Fc x size num_flatten_dims weight_attr bias_attr\<close>
  is \<open>paddle.static.nn.fc\<close>, \<open>Matmul x y transpose_y\<close> is \<open>paddle.matmul\<close>,
  \<open>MulScalar x c\<close> is \<open>x * c\<close> and \<open>SubScalar x c\<close> is \<open>x - c\<close>.
  \<open>RnnOutputs\<close> is the first component of what \<open>nn.RNN(cell, is_reverse, time_major)\<close>
  returns when called on \<open>inputs\<close>, \<open>initial_states\<close>, \<open>enc_output\<close> and
  \<open>enc_padding_mask\<close>; \<open>DynamicDecodeOutputs\<close> is the first component of what
  \<open>dynamic_decode(decoder, inits, max_step_num, enc_output, enc_padding_mask)\<close> returns.
\<close>

datatype variable =
    Given string
  | Data string "int list" dtype
  | Squeeze variable
  | Unsqueeze variable "int list"
  | SequenceMask variable int dtype
  | SubScalar variable real
  | MulScalar variable int
  | Add variable variable
  | Transpose variable "int list"
  | Matmul variable variable bool
  | Softmax variable
  | Fc variable int int "ParamAttr option" "ParamAttr option"
  | Embedding variable "int list" dtype bool ParamAttr
  | GetInitialStates AttentionDecoderCell variable "int list"
  | RnnOutputs AttentionDecoderCell bool bool variable "variable nest" variable variable
  | Argmax variable int
  | Reshape variable "int list"
  | TileBeamMergeWithBatch variable int
  | DynamicDecodeOutputs BeamSearchDecoder "variable nest" int variable variable

section \<open>AttentionDecoderCell\<close>

text \<open>Lines 34 to 43.\<close>

definition AttentionDecoderCell_init ::
  "int \<Rightarrow> int \<Rightarrow> int \<Rightarrow> real \<Rightarrow> real \<Rightarrow> AttentionDecoderCell" where
  "AttentionDecoderCell_init num_layers inp_size hid_size dropout_p scale =
     \<lparr>cell_num_layers = num_layers,
      cell_hidden_size = hid_size,
      dropout_prob = dropout_p,
      lstm_cells =
        map (\<lambda>i. \<lparr>input_size = (if i = 0 then inp_size + hid_size else hid_size),
                   lstm_hidden_size = hid_size\<rparr>)
          [0..<nat num_layers],
      init_scale = scale\<rparr>"

text \<open>
  Lines 45 to 62. The argument \<open>mask\<close> is \<open>None\<close> or a variable of the graph;
  \<open>if mask:\<close> takes a variable for true.
\<close>

definition attention ::
  "AttentionDecoderCell \<Rightarrow> variable \<Rightarrow> variable \<Rightarrow> variable option \<Rightarrow> variable" where
  "attention self query enc_output mask_arg =
     (let query1 = Unsqueeze query [1];
          memory =
            Fc enc_output (cell_hidden_size self) 2
              (Some \<lparr>attr_name = ''dec_memory_w'',
                     attr_initializer = Some (Uniform (- init_scale self) (init_scale self))\<rparr>)
              None;
          attn = Matmul query1 memory True;
          attn1 =
            (case mask_arg of
               None \<Rightarrow> attn
             | Some m \<Rightarrow>
                 Transpose (Add (Transpose attn [1, 0, 2]) (MulScalar m 1000000000)) [1, 0, 2]);
          weight = Softmax attn1;
          weight_memory = Matmul weight memory False
      in weight_memory)"

section \<open>TextGenerationTask\<close>

type_synonym program = string
typedecl dataset
typedecl run_config

text \<open>\<open>metrics_choices\<close> as a caller passes it: a name or a list of names.\<close>

datatype metrics_arg = MetricName string | MetricList "string list"

text \<open>
  The arguments of \<open>__init__\<close> (lines 106 to 123). An argument with a default is
  \<open>None\<close> when the caller leaves it out.
\<close>

record init_args =
  arg_feature :: variable
  arg_token_feature :: variable
  arg_max_seq_len :: int
  arg_num_classes :: int
  arg_dataset :: "dataset option"
  arg_num_layers :: "int option"
  arg_hidden_size :: "int option"
  arg_dropout :: "real option"
  arg_beam_size :: "int option"
  arg_beam_max_step_num :: "int option"
  arg_start_token :: "string option"
  arg_end_token :: "string option"
  arg_startup_program :: "program option"
  arg_config :: "run_config option"
  arg_metrics_choices :: "metrics_arg option"

text \<open>The defaults that the class docstring documents (lines 94 to 103).\<close>

definition doc_default_num_layers :: int where "doc_default_num_layers = 1"
definition doc_default_hidden_size :: int where "doc_default_hidden_size = 128"
definition doc_default_beam_size :: int where "doc_default_beam_size = 10"
definition doc_default_beam_max_step_num :: int where "doc_default_beam_max_step_num = 30"

text \<open>What \<open>__init__\<close> passes to \<open>BaseTask.__init__\<close> (lines 127 to 131).\<close>

record base_kwargs =
  kw_dataset :: "dataset option"
  kw_main_program :: program
  kw_startup_program :: "program option"
  kw_config :: "run_config option"
  kw_metrics_choices :: metrics_arg

text \<open>
  The attributes that the methods below read and that \<open>BaseTask\<close> maintains:
  \<open>self._label_list\<close>, \<open>self.is_predict_phase\<close>, \<open>self.metrics_choices\<close> and
  \<open>self.dataset.label_list\<close>. \<open>BaseTask\<close> is not among the files verified here, so
  its constructor is a parameter of \<open>__init__\<close>, and it may raise.
\<close>

record base_task =
  label_list :: "string list"
  is_predict_phase :: bool
  metrics_choices :: "string list"
  dataset_label_list :: "string list"

record task =
  base :: base_task
  num_layers :: int
  hidden_size :: int
  dropout :: real
  token_feature :: variable
  feature :: variable
  max_seq_len :: int
  num_classes :: int
  beam_size :: int
  beam_max_step_num :: int
  start_token :: string
  end_token :: string

text \<open>A keyword argument with its default.\<close>

definition default :: "'a \<Rightarrow> 'a option \<Rightarrow> 'a" where
  "default d a = (case a of None \<Rightarrow> d | Some v \<Rightarrow> v)"

text \<open>Lines 124 and 125.\<close>

definition init_metrics_choices :: "metrics_arg option \<Rightarrow> metrics_arg" where
  "init_metrics_choices a =
     (let metrics_choices = default (MetricName ''default'') a
      in if metrics_choices = MetricName ''default'' then MetricList [''bleu'']
         else metrics_choices)"

text \<open>Lines 126 to 131; \<open>block_program\<close> is \<open>feature.block.program\<close>.\<close>

definition init_base_kwargs :: "(variable \<Rightarrow> program) \<Rightarrow> init_args \<Rightarrow> base_kwargs" where
  "init_base_kwargs block_program a =
     \<lparr>kw_dataset = arg_dataset a,
      kw_main_program = block_program (arg_feature a),
      kw_startup_program = arg_startup_program a,
      kw_config = arg_config a,
      kw_metrics_choices = init_metrics_choices (arg_metrics_choices a)\<rparr>"

text \<open>Lines 106 to 143.\<close>

definition TextGenerationTask_init ::
  "(base_kwargs \<Rightarrow> error + base_task) \<Rightarrow> (variable \<Rightarrow> program) \<Rightarrow> init_args \<Rightarrow>
   error + task" where
  "TextGenerationTask_init BaseTask_init block_program a =
     (case BaseTask_init (init_base_kwargs block_program a) of
        Inl e \<Rightarrow> Inl e
      | Inr b \<Rightarrow>
          Inr \<lparr>base = b,
               num_layers = default 1 (arg_num_layers a),
               hidden_size = default 512 (arg_hidden_size a),
               dropout = default 0 (arg_dropout a),
               token_feature = arg_token_feature a,
               feature = arg_feature a,
               max_seq_len = arg_max_seq_len a,
               num_classes = arg_num_classes a,
               beam_size = default 10 (arg_beam_size a),
               beam_max_step_num = default 30 (arg_beam_max_step_num a),
               start_token = default ''<s>'' (arg_start_token a),
               end_token = default ''</s>'' (arg_end_token a)\<rparr>)"

subsection \<open>_build_net\<close>

text \<open>Lines 171 to 176 and lines 198 and 199: the lambdas applied to a variable.\<close>

fun tar_embeder :: "embedding_fn \<Rightarrow> variable \<Rightarrow> variable" where
  "tar_embeder (TarEmbedder tar_vocab_size hid_size) x =
     Embedding x [tar_vocab_size, hid_size] DFloat32 False
       \<lparr>attr_name = ''target_embedding'', attr_initializer = Some (Uniform (- 0.1) 0.1)\<rparr>"

fun output_layer :: "(variable \<Rightarrow> int list) \<Rightarrow> output_fn \<Rightarrow> variable \<Rightarrow> variable" where
  "output_layer shape (OutputLayer tar_vocab_size) x =
     Fc x tar_vocab_size (int (length (shape x)) - 1)
       (Some \<lparr>attr_name = ''output_w'', attr_initializer = None\<rparr>) None"

text \<open>
  What \<open>_build_net\<close> returns: a list of variables outside the predict phase (line 196),
  the decoded variable itself in the predict phase (line 213).
\<close>

datatype net_outputs = OutputList "variable list" | OutputVariable variable

text \<open>The return value and the attributes that \<open>_build_net\<close> sets on the task.\<close>

record net =
  outputs :: net_outputs
  seq_len :: variable
  seq_len_used :: variable
  dec_input :: "variable option"
  logits :: "variable option"
  ret_infers :: variable

text \<open>
  The calls into the framework that \<open>_build_net\<close> makes: a layer call that adds
  operators to the program and returns a variable, and the constructors of the cell (with
  its LSTM cells), of the RNN and of the decoder. Every one of them can raise: the
  framework checks shapes and arguments when the call is made, and the calls that run
  the cell (\<open>rnn(...)\<close>, \<open>dynamic_decode(...)\<close>) execute its \<open>forward\<close>. Whether a call
  raises is decided by the framework and not by the code modelled here, so it is the
  parameter \<open>raises\<close>: the exception of a call, or \<open>None\<close> when the call returns.
\<close>

datatype framework_call =
    Layer variable
  | NewAttentionDecoderCell AttentionDecoderCell
  | NewRNN AttentionDecoderCell bool bool
  | NewBeamSearchDecoder BeamSearchDecoder

definition framework ::
  "(framework_call \<Rightarrow> error option) \<Rightarrow> framework_call \<Rightarrow> 'a \<Rightarrow> error + 'a" where
  "framework raises c result = (case raises c of Some e \<Rightarrow> Inl e | None \<Rightarrow> Inr result)"

definition layer :: "(framework_call \<Rightarrow> error option) \<Rightarrow> variable \<Rightarrow> error + variable" where
  "layer raises v = framework raises (Layer v) v"

text \<open>One statement after another: an exception ends the function.\<close>

definition and_then :: "error + 'a \<Rightarrow> ('a \<Rightarrow> error + 'b) \<Rightarrow> error + 'b" where
  "and_then m f = (case m of Inl e \<Rightarrow> Inl e | Inr x \<Rightarrow> f x)"

text \<open>
  Lines 179 to 196, the branch outside the predict phase, and lines 197 to 213, the
  branch of the predict phase.
\<close>

definition build_train_net ::
  "(framework_call \<Rightarrow> error option) \<Rightarrow> (variable \<Rightarrow> int list) \<Rightarrow> task \<Rightarrow> variable \<Rightarrow>
   variable \<Rightarrow> variable \<Rightarrow> AttentionDecoderCell \<Rightarrow> variable nest \<Rightarrow> error + net" where
  "build_train_net raises shape self seq_len_v seq_len_used_v enc_padding_mask dec_cell
     dec_initial_states =
     (let tar_vocab_size = int (length (label_list (base self)))
      in
     and_then (layer raises (Data ''dec_input'' [max_seq_len self] DInt64)) (\<lambda>dec_input_v.
     and_then (layer raises
                 (tar_embeder (TarEmbedder tar_vocab_size (hidden_size self)) dec_input_v))
       (\<lambda>tar_emb.
     and_then (framework raises (NewRNN dec_cell False False) ()) (\<lambda>rnn.
     and_then (layer raises
                 (RnnOutputs dec_cell False False tar_emb dec_initial_states
                    (token_feature self) enc_padding_mask))
       (\<lambda>dec_output.
     and_then (layer raises
                 (Fc dec_output tar_vocab_size (int (length (shape dec_output)) - 1)
                    (Some \<lparr>attr_name = ''output_w'',
                           attr_initializer = Some (Uniform (- 0.1) 0.1)\<rparr>)
                    None))
       (\<lambda>logits_v.
     and_then (layer raises (Argmax logits_v 2)) (\<lambda>argmax_v.
     and_then (layer raises (Reshape argmax_v [- 1, 1])) (\<lambda>ret_infers_v.
     and_then (layer raises (Softmax logits_v)) (\<lambda>softmax_v.
       Inr \<lparr>outputs = OutputList [softmax_v],
            seq_len = seq_len_v,
            seq_len_used = seq_len_used_v,
            dec_input = Some dec_input_v,
            logits = Some logits_v,
            ret_infers = ret_infers_v\<rparr>)))))))))"

definition build_predict_net ::
  "(framework_call \<Rightarrow> error option) \<Rightarrow> task \<Rightarrow> variable \<Rightarrow> variable \<Rightarrow> variable \<Rightarrow>
   AttentionDecoderCell \<Rightarrow> variable nest \<Rightarrow> int \<Rightarrow> int \<Rightarrow> error + net" where
  "build_predict_net raises self seq_len_v seq_len_used_v enc_padding_mask dec_cell
     dec_initial_states start_id end_id =
     (let tar_vocab_size = int (length (label_list (base self)));
          decoder =
            \<lparr>decoder_cell = dec_cell,
             start_token_id = start_id,
             end_token_id = end_id,
             decoder_beam_size = beam_size self,
             decoder_embedding_fn = TarEmbedder tar_vocab_size (hidden_size self),
             decoder_output_fn = OutputLayer tar_vocab_size\<rparr>
      in
     and_then (framework raises (NewBeamSearchDecoder decoder) decoder) (\<lambda>beam_search_decoder.
     and_then (layer raises (TileBeamMergeWithBatch (token_feature self) (beam_size self)))
       (\<lambda>enc_output.
     and_then (layer raises (TileBeamMergeWithBatch enc_padding_mask (beam_size self)))
       (\<lambda>enc_padding_mask1.
     and_then (layer raises
                 (DynamicDecodeOutputs beam_search_decoder dec_initial_states
                    (beam_max_step_num self) enc_output enc_padding_mask1))
       (\<lambda>decoded.
       Inr \<lparr>outputs = OutputVariable decoded,
            seq_len = seq_len_v,
            seq_len_used = seq_len_used_v,
            dec_input = None,
            logits = None,
            ret_infers = decoded\<rparr>)))))"

text \<open>
  Lines 149 to 213. \<open>shape\<close> is the framework's shape inference (\<open>x.shape\<close>).
  \<open>feature.shape[-1]\<close> raises IndexError on an empty shape and \<open>_label_list.index\<close>
  raises ValueError for a token that is not a label, in every phase. The cell's
  \<open>init_scale\<close> is left at its default, 0.1. Of the two calls of
  \<open>get_initial_states\<close>, the one of line 167 is made first.
\<close>

definition build_net ::
  "(framework_call \<Rightarrow> error option) \<Rightarrow> (variable \<Rightarrow> int list) \<Rightarrow> task \<Rightarrow> error + net" where
  "build_net raises shape self =
     and_then (layer raises (Data ''seq_len'' [1] DInt64)) (\<lambda>seq_len_v.
     and_then (layer raises (Squeeze seq_len_v)) (\<lambda>seq_len_used_v.
     and_then (layer raises (SequenceMask seq_len_used_v (max_seq_len self) DFloat32))
       (\<lambda>src_mask.
     and_then (layer raises (SubScalar src_mask 1)) (\<lambda>enc_padding_mask.
     and_then (py_index (shape (feature self)) (- 1)) (\<lambda>feature_size.
     and_then (framework raises
                 (NewAttentionDecoderCell
                    (AttentionDecoderCell_init (num_layers self) feature_size
                       (hidden_size self) (dropout self) 0.1))
                 (AttentionDecoderCell_init (num_layers self) feature_size
                    (hidden_size self) (dropout self) 0.1))
       (\<lambda>dec_cell.
     and_then (layer raises
                 (Fc (feature self) (hidden_size self) 1
                    (Some \<lparr>attr_name = ''dec_init_hidden_w'',
                           attr_initializer = Some (TruncatedNormal 0.02)\<rparr>)
                    (Some \<lparr>attr_name = ''dec_init_hidden_b'',
                           attr_initializer = Some (Constant 0)\<rparr>)))
       (\<lambda>dec_init_hidden.
     and_then (layer raises (GetInitialStates dec_cell (feature self) [hidden_size self]))
       (\<lambda>cell_states.
     and_then (layer raises (GetInitialStates dec_cell (feature self) [hidden_size self]))
       (\<lambda>input_feed.
     and_then (list_index (label_list (base self)) (start_token self)) (\<lambda>start_id.
     and_then (list_index (label_list (base self)) (end_token self)) (\<lambda>end_id.
       (let dec_initial_states =
              Nest [Nest (replicate (nat (num_layers self))
                            (Nest [Leaf dec_init_hidden, Leaf cell_states])),
                    Leaf input_feed]
        in if \<not> is_predict_phase (base self)
           then build_train_net raises shape self seq_len_v seq_len_used_v enc_padding_mask
                  dec_cell dec_initial_states
           else build_predict_net raises self seq_len_v seq_len_used_v enc_padding_mask
                  dec_cell dec_initial_states start_id end_id))))))))))))"

text \<open>
  Two readings of what \<open>_build_net\<close> returns: the beam width and the step bound of the
  beam-search decoding that the output is, and the width of the fully connected layer
  under the softmax that the outputs are.
\<close>

fun beam_search_of :: "net_outputs \<Rightarrow> (BeamSearchDecoder \<times> int) option" where
  "beam_search_of (OutputVariable (DynamicDecodeOutputs d inits max_step_num e m)) =
     Some (d, max_step_num)"
| "beam_search_of _ = None"


section \<open>The keypoint detection module\<close>

text \<open>
  The test of \<open>human_pose_estimation_resnet50_mpii\<close> calls the module's
  \<open>keypoint_detection\<close> and \<open>save_inference_model\<close>. The module itself is not among
  the files verified here; the definitions of this section follow the specification's
  sections 6 to 8 and the calls of the test.
\<close>

type_synonym image = "nat list list list"

type_synonym keypoints = "(string \<times> int list) list"

text \<open>What a caller can put into the \<open>images\<close> list, and what a result holds.\<close>

datatype pyobj = NdArray image | Str string | Dict keypoints

datatype detection_input = Paths "string list" | Images "pyobj list"

text \<open>
  Modelled from the spec: how \<open>keypoint_detection\<close> reads one path. The module's reader
  is missing; the spec gives a "file-not-found style assertion failure for missing
  images". \<open>disk\<close> maps the path of every image file to the image it decodes to.
\<close>

definition read_path :: "(string \<rightharpoonup> image) \<Rightarrow> string \<Rightarrow> error + image" where
  "read_path disk path = (case disk path of None \<Rightarrow> Inl AssertionError | Some im \<Rightarrow> Inr im)"

text \<open>
  Modelled from the spec: how \<open>keypoint_detection\<close> takes one element of \<open>images\<close>. The
  module's reader is missing; the spec gives "attribute errors when a string is passed
  where an image object is expected".
\<close>

fun read_image :: "pyobj \<Rightarrow> error + image" where
  "read_image (NdArray im) = Inr im"
| "read_image _ = Inl AttributeError"

text \<open>
  Modelled from the spec: \<open>keypoint_detection\<close>, whose module is missing. It accepts
  "image paths or in-memory images and optional flags (visualization, device selection)"
  and returns "per-image keypoint dictionaries", one result per image with the
  dictionary under the key \<open>data\<close>, as the test reads it. \<open>estimate\<close> is the forward
  pass of the pretrained network with its decoding into keypoints, a parameter. The
  flags do not change what is returned.
\<close>

definition keypoint_detection ::
  "(image \<Rightarrow> keypoints) \<Rightarrow> (string \<rightharpoonup> image) \<Rightarrow> detection_input \<Rightarrow> bool option \<Rightarrow>
   bool option \<Rightarrow> error + (string \<times> pyobj) list list" where
  "keypoint_detection estimate disk inp visualization use_gpu =
     (case (case inp of
              Paths paths \<Rightarrow> comprehension (read_path disk) paths
            | Images images \<Rightarrow> comprehension read_image images) of
        Inl e \<Rightarrow> Inl e
      | Inr ims \<Rightarrow> Inr (map (\<lambda>im. [(''data'', Dict (estimate im))]) ims))"

text \<open>The number of images of a call.\<close>

fun input_count :: "detection_input \<Rightarrow> nat" where
  "input_count (Paths paths) = length paths"
| "input_count (Images images) = length images"

text \<open>
  A valid input: every path is the path of an image file, every element of \<open>images\<close> is
  an array.
\<close>

fun valid_input :: "(string \<rightharpoonup> image) \<Rightarrow> detection_input \<Rightarrow> bool" where
  "valid_input disk (Paths paths) = list_all (\<lambda>p. disk p \<noteq> None) paths"
| "valid_input disk (Images images) = list_all (\<lambda>x. case x of NdArray _ \<Rightarrow> True | _ \<Rightarrow> False) images"

text \<open>
  Modelled from the spec: the files that \<open>save_inference_model\<close> writes for a prefix.
  The module is missing; the spec gives "two framework-specific artifact files", and
  the test names their suffixes.
\<close>

definition inference_artifacts :: "string \<Rightarrow> string list" where
  "inference_artifacts prefix = [prefix @ ''.pdmodel'', prefix @ ''.pdiparams'']"

text \<open>
  Modelled from the spec: \<open>save_inference_model\<close>, whose module is missing, on the set
  of the paths that exist on disk.
\<close>

definition save_inference_model :: "string \<Rightarrow> string set \<Rightarrow> string set" where
  "save_inference_model prefix existing = existing \<union> set (inference_artifacts prefix)"

section \<open>Example inputs\<close>

text \<open>Small inputs on which the theorems below are exercised.\<close>

definition example_labels :: "string list" where
  "example_labels = [''<s>'', ''</s>'', ''a'', ''b'']"

definition example_eval_state :: eval_state where
  "example_eval_state =
     \<lparr>np_labels = [2, 3, 1, 0], np_infers = [2, 2, 1, 0], np_lens = [4],
      loss_mean = 1 / 2, run_examples = 1, run_step = 1, run_time_begin = 0\<rparr>"

definition example_bleu ::
  "string list list \<Rightarrow> string list list \<Rightarrow> int \<Rightarrow> error + (nat \<times> int)" where
  "example_bleu ls rs max_order =
     Inr (length (filter (\<lambda>(l, r). l = r) (zip (concat ls) (concat rs))), max_order)"

definition example_args :: init_args where
  "example_args =
     \<lparr>arg_feature = Given ''feature'', arg_token_feature = Given ''token_feature'',
      arg_max_seq_len = 8, arg_num_classes = 4, arg_dataset = None, arg_num_layers = None,
      arg_hidden_size = None, arg_dropout = None, arg_beam_size = None,
      arg_beam_max_step_num = None, arg_start_token = None, arg_end_token = None,
      arg_startup_program = None, arg_config = None, arg_metrics_choices = None\<rparr>"

definition example_base :: "bool \<Rightarrow> base_task" where
  "example_base predict =
     \<lparr>label_list = example_labels, is_predict_phase = predict, metrics_choices = [''bleu''],
      dataset_label_list = example_labels\<rparr>"




definition example_raising_bleu ::
  "string list list \<Rightarrow> string list list \<Rightarrow> int \<Rightarrow> error + (nat \<times> int)" where
  "example_raising_bleu ls rs max_order = Inl ZeroDivisionError"

definition example_predict_state :: predict_state where
  "example_predict_state =
     \<lparr>fetched_infers = \<lparr>beams = 2, samples = [[[2, 3], [3, 2], [1, 1], [0, 0]]]\<rparr>,
      fetched_seq_len = [4]\<rparr>"

definition example_acc :: metrics_acc where
  "example_acc = \<lparr>loss_sum = 1 / 2, run_step_sum = 1, run_examples_sum = 1,
               labels = [[''a'', ''b'']], results = [[''a'', ''a'']]\<rparr>"

section \<open>List comprehensions that can raise\<close>

lemma comprehension_Inr_all2:
  "comprehension f xs = Inr ys \<Longrightarrow> list_all2 (\<lambda>x y. f x = Inr y) xs ys"
  by (induction xs arbitrary: ys) (auto split: sum.splits)

lemma all2_comprehension_Inr:
  "list_all2 (\<lambda>x y. f x = Inr y) xs ys \<Longrightarrow> comprehension f xs = Inr ys"
  by (induction xs ys rule: list_all2_induct) auto

lemma comprehension_Inr_iff:
  "comprehension f xs = Inr ys \<longleftrightarrow> list_all2 (\<lambda>x y. f x = Inr y) xs ys"
  using comprehension_Inr_all2 all2_comprehension_Inr by blast

lemma comprehension_returns:
  "(\<And>x. x \<in> set xs \<Longrightarrow> \<exists>y. f x = Inr y) \<Longrightarrow> \<exists>ys. comprehension f xs = Inr ys"
  by (induction xs) (fastforce split: sum.splits)+

lemma comprehension_raises:
  "comprehension f xs = Inl e \<Longrightarrow> \<exists>x \<in> set xs. f x = Inl e"
  by (induction xs) (auto split: sum.splits)

lemma comprehension_length:
  "comprehension f xs = Inr ys \<Longrightarrow> length ys = length xs"
  by (simp add: comprehension_Inr_iff list_all2_lengthD)

lemma comprehension_one_error:
  assumes "x \<in> set xs" "f x = Inl e" "\<And>y e'. f y = Inl e' \<Longrightarrow> e' = e"
  shows "comprehension f xs = Inl e"
proof (cases "comprehension f xs")
  case (Inl e')
  then show ?thesis using comprehension_raises [OF Inl] assms(3) by auto
next
  case (Inr ys)
  then have "list_all2 (\<lambda>x y. f x = Inr y) xs ys" by (simp add: comprehension_Inr_iff)
  then obtain y where "f x = Inr y" using assms(1) by (auto simp: list_all2_conv_all_nth in_set_conv_nth)
  then show ?thesis using assms(2) by simp
qed

section \<open>Properties of the keypoint detection module\<close>

text \<open>
  C1. Every call of \<open>keypoint_detection\<close> with valid image paths or with in-memory image
  arrays, whatever the \<open>visualization\<close> and \<open>use_gpu\<close> flags, returns one result per
  input image, and the \<open>data\<close> entry of each result is a dictionary of keypoints.
\<close>

theorem keypoint_detection_one_result_per_image:
  assumes "valid_input disk inp"
  shows "\<exists>res. keypoint_detection estimate disk inp visualization use_gpu = Inr res \<and>
           length res = input_count inp \<and>
           (\<forall>r \<in> set res. \<exists>kps. map_of r ''data'' = Some (Dict kps))"
proof (cases inp)
  case (Paths paths)
  with assms have "\<And>p. p \<in> set paths \<Longrightarrow> \<exists>im. read_path disk p = Inr im"
    by (auto simp: list_all_iff read_path_def)
  from comprehension_returns [of paths "read_path disk", OF this]
  obtain ims where ims: "comprehension (read_path disk) paths = Inr ims" by blast
  from comprehension_length [OF ims] ims Paths show ?thesis
    by (auto simp: keypoint_detection_def)
next
  case (Images images)
  have "\<exists>im. read_image x = Inr im" if "x \<in> set images" for x
    using assms Images that by (cases x) (auto simp: list_all_iff)
  from comprehension_returns [of images read_image, OF this]
  obtain ims where ims: "comprehension read_image images = Inr ims" by blast
  from comprehension_length [OF ims] ims Images show ?thesis
    by (auto simp: keypoint_detection_def)
qed

theorem keypoint_detection_one_result_per_image_witness:
  "valid_input [''tests/test.jpg'' \<mapsto> [[[0, 0, 0]]]] (Paths [''tests/test.jpg'']) \<and>
   (\<exists>res. keypoint_detection (\<lambda>im. [(''head_top'', [1, 2])])
             [''tests/test.jpg'' \<mapsto> [[[0, 0, 0]]]] (Paths [''tests/test.jpg''])
             None (Some True) = Inr res \<and>
          length res = input_count (Paths [''tests/test.jpg'']) \<and>
          (\<forall>r \<in> set res. \<exists>kps. map_of r ''data'' = Some (Dict kps)))"
  using keypoint_detection_one_result_per_image
          [of "[''tests/test.jpg'' \<mapsto> [[[0, 0, 0]]]]" "Paths [''tests/test.jpg'']"
              "\<lambda>im. [(''head_top'', [1, 2])]" None "Some True"]
  by simp

text \<open>
  C2. A call of \<open>keypoint_detection\<close> whose \<open>paths\<close> contain the path of a file that
  does not exist raises AssertionError, for every such list of paths.
\<close>

theorem missing_path_raises_AssertionError:
  assumes "p \<in> set paths" "disk p = None"
  shows "keypoint_detection estimate disk (Paths paths) visualization use_gpu =
           Inl AssertionError"
proof -
  have "comprehension (read_path disk) paths = Inl AssertionError"
    by (rule comprehension_one_error [OF assms(1)])
       (auto simp: read_path_def assms(2) split: option.splits)
  then show ?thesis by (simp add: keypoint_detection_def)
qed

theorem missing_path_raises_AssertionError_witness:
  "''no.jpg'' \<in> set [''no.jpg''] \<and> (Map.empty :: string \<rightharpoonup> image) ''no.jpg'' = None \<and>
   keypoint_detection (\<lambda>im. []) Map.empty (Paths [''no.jpg'']) None None = Inl AssertionError"
  using missing_path_raises_AssertionError
          [of "''no.jpg''" "[''no.jpg'']" Map.empty "\<lambda>im. []" None None]
  by simp

text \<open>
  C3. A call of \<open>keypoint_detection\<close> whose \<open>images\<close> contain a string where an image
  array is expected raises AttributeError and returns no result.
\<close>

theorem string_image_raises_AttributeError:
  assumes "Str s \<in> set images"
  shows "keypoint_detection estimate disk (Images images) visualization use_gpu =
           Inl AttributeError"
proof -
  have "e = AttributeError" if "read_image y = Inl e" for y e
    using that by (cases y) auto
  with assms have "comprehension read_image images = Inl AttributeError"
    by (intro comprehension_one_error [of "Str s"]) auto
  then show ?thesis by (simp add: keypoint_detection_def)
qed

theorem string_image_raises_AttributeError_witness:
  "Str ''test.jpg'' \<in> set [Str ''test.jpg''] \<and>
   keypoint_detection (\<lambda>im. []) Map.empty (Images [Str ''test.jpg'']) None None =
     Inl AttributeError"
  using string_image_raises_AttributeError
          [of "''test.jpg''" "[Str ''test.jpg'']" "\<lambda>im. []" Map.empty None None]
  by simp

text \<open>
  C4. \<open>save_inference_model\<close> with a prefix leaves exactly two artifact files on disk
  at that prefix, the prefix with the suffix \<open>.pdmodel\<close> and the prefix with the suffix
  \<open>.pdiparams\<close>; they are two different files, and nothing else is written.
\<close>

theorem save_inference_model_two_artifacts:
  "save_inference_model prefix existing =
     insert (prefix @ ''.pdmodel'') (insert (prefix @ ''.pdiparams'') existing) \<and>
   prefix @ ''.pdmodel'' \<noteq> prefix @ ''.pdiparams'' \<and>
   card (set (inference_artifacts prefix)) = 2"
  by (auto simp: save_inference_model_def inference_artifacts_def)

section \<open>Properties of the attention cell\<close>

text \<open>
  C7. \<open>AttentionDecoderCell.attention\<close> projects \<open>enc_output\<close> to a memory with a learned
  fully connected layer, takes as scores the matrix product of the query (with an axis
  inserted at position 1) and the transposed memory, adds \<open>mask * 1000000000\<close> to the
  scores when a mask is given (between two transpositions of the first two axes) and
  leaves them as they are otherwise, applies softmax, and returns the matrix product of
  the weights and the memory.
\<close>

theorem attention_matmul_softmax:
  "attention self query enc_output mask_arg =
     (let memory =
            Fc enc_output (cell_hidden_size self) 2
              (Some \<lparr>attr_name = ''dec_memory_w'',
                     attr_initializer = Some (Uniform (- init_scale self) (init_scale self))\<rparr>)
              None;
          scores = Matmul (Unsqueeze query [1]) memory True;
          masked =
            (case mask_arg of
               None \<Rightarrow> scores
             | Some m \<Rightarrow>
                 Transpose (Add (Transpose scores [1, 0, 2]) (MulScalar m 1000000000)) [1, 0, 2])
      in Matmul (Softmax masked) memory False)"
  by (simp add: attention_def Let_def)

section \<open>Properties of the task's constructor\<close>

text \<open>
  C8. Constructing a \<open>TextGenerationTask\<close> without \<open>hidden_size\<close> sets
  \<open>self.hidden_size\<close> to 512, while the docstring of the class documents 128 as the
  default.
\<close>

theorem default_hidden_size_512:
  assumes "arg_hidden_size a = None"
    and "BaseTask_init (init_base_kwargs block_program a) = Inr b"
  shows "\<exists>t. TextGenerationTask_init BaseTask_init block_program a = Inr t \<and>
             hidden_size t = 512 \<and> doc_default_hidden_size = 128"
  using assms by (simp add: TextGenerationTask_init_def default_def doc_default_hidden_size_def)

theorem default_hidden_size_512_witness:
  "arg_hidden_size example_args = None \<and>
   (\<exists>t. TextGenerationTask_init (\<lambda>kw. Inr (example_base True)) (\<lambda>v. ''main'') example_args
           = Inr t \<and>
        hidden_size t = 512 \<and> doc_default_hidden_size = 128)"
  using default_hidden_size_512
          [of example_args "\<lambda>kw. Inr (example_base True)" "\<lambda>v. ''main''" "example_base True"]
  by (simp add: example_args_def)

section \<open>Properties of the metrics\<close>

lemma metric_scores_bleu:
  assumes "set ms \<subseteq> {''bleu''}" "compute_bleu ls rs 1 = Inr b"
  shows "metric_scores compute_bleu ls rs ms scores =
           Inr (if ms = [] then scores else AList.update ''bleu'' (fst b) scores)"
  using assms by (induction ms arbitrary: scores) (auto simp: AList.update_last)

lemma metric_scores_first_unsupported:
  assumes "m \<noteq> ''bleu''" "set pre \<subseteq> {''bleu''}"
    and "pre \<noteq> [] \<longrightarrow> compute_bleu ls rs 1 = Inr b"
  shows "metric_scores compute_bleu ls rs (pre @ m # post) scores =
           Inl (ValueError (''Not Support Metric: '' @ [CHR 0x27] @ m @ [CHR 0x27]))"
  using assms by (induction pre arbitrary: scores) auto

text \<open>
  C9, as the code has it. The constructor replaces \<open>metrics_choices = 'default'\<close>, passed
  or left out, by \<open>['bleu']\<close>: constructing with \<open>'default'\<close> is constructing with
  \<open>['bleu']\<close>, and \<open>['bleu']\<close> is what the base constructor receives. Once
  \<open>_calculate_metrics\<close> has gone through a non-empty list of run states without an
  exception and the time used is not zero, it raises ValueError for the first name of
  \<open>metrics_choices\<close> that is not \<open>'bleu'\<close>, provided that \<open>compute_bleu\<close> returned when a
  \<open>'bleu'\<close> stands before that name; and when every name is \<open>'bleu'\<close> the score is what
  \<open>compute_bleu\<close> returns first for the collected labels and results at \<open>max_order\<close> 1.
\<close>

theorem first_unsupported_metric_raises_ValueError:
  assumes "run_states_loop ll acc0 (first # rest) = Inr acc"
    and "now \<noteq> run_time_begin first"
  shows "TextGenerationTask_init BaseTask_init block_program
           (a\<lparr>arg_metrics_choices := Some (MetricName ''default'')\<rparr>) =
         TextGenerationTask_init BaseTask_init block_program
           (a\<lparr>arg_metrics_choices := Some (MetricList [''bleu''])\<rparr>) \<and>
         TextGenerationTask_init BaseTask_init block_program
           (a\<lparr>arg_metrics_choices := None\<rparr>) =
         TextGenerationTask_init BaseTask_init block_program
           (a\<lparr>arg_metrics_choices := Some (MetricList [''bleu''])\<rparr>) \<and>
         kw_metrics_choices
           (init_base_kwargs block_program
              (a\<lparr>arg_metrics_choices := Some (MetricName ''default'')\<rparr>)) =
           MetricList [''bleu''] \<and>
         (m \<noteq> ''bleu'' \<and> set pre \<subseteq> {''bleu''} \<and>
          (pre \<noteq> [] \<longrightarrow> compute_bleu (labels acc) (results acc) 1 = Inr b) \<longrightarrow>
            calculate_metrics compute_bleu now ll (pre @ m # post) (first # rest) =
              Inl (ValueError (''Not Support Metric: '' @ [CHR 0x27] @ m @ [CHR 0x27]))) \<and>
         (ms \<noteq> [] \<and> set ms \<subseteq> {''bleu''} \<and>
          compute_bleu (labels acc) (results acc) 1 = Inr b \<longrightarrow>
            (\<exists>avg_loss run_speed.
               calculate_metrics compute_bleu now ll ms (first # rest) =
                 Inr ([(''bleu'', fst b)], avg_loss, run_speed)))"
proof -
  have c1: "TextGenerationTask_init BaseTask_init block_program
           (a\<lparr>arg_metrics_choices := Some (MetricName ''default'')\<rparr>) =
         TextGenerationTask_init BaseTask_init block_program
           (a\<lparr>arg_metrics_choices := Some (MetricList [''bleu''])\<rparr>)"
    by (simp add: TextGenerationTask_init_def init_base_kwargs_def
        init_metrics_choices_def default_def split: sum.splits)
  have c2: "TextGenerationTask_init BaseTask_init block_program
           (a\<lparr>arg_metrics_choices := None\<rparr>) =
         TextGenerationTask_init BaseTask_init block_program
           (a\<lparr>arg_metrics_choices := Some (MetricList [''bleu''])\<rparr>)"
    by (simp add: TextGenerationTask_init_def init_base_kwargs_def
        init_metrics_choices_def default_def split: sum.splits)
  have c3: "kw_metrics_choices
           (init_base_kwargs block_program
              (a\<lparr>arg_metrics_choices := Some (MetricName ''default'')\<rparr>)) =
           MetricList [''bleu'']"
    by (simp add: init_base_kwargs_def init_metrics_choices_def default_def)
  have c4: "calculate_metrics compute_bleu now ll (pre @ m # post) (first # rest) =
              Inl (ValueError (''Not Support Metric: '' @ [CHR 0x27] @ m @ [CHR 0x27]))"
    if "m \<noteq> ''bleu'' \<and> set pre \<subseteq> {''bleu''} \<and>
          (pre \<noteq> [] \<longrightarrow> compute_bleu (labels acc) (results acc) 1 = Inr b)"
    using metric_scores_first_unsupported
            [of m pre compute_bleu "labels acc" "results acc" b post "[]"] that assms
    by (simp add: calculate_metrics_def Let_def)
  have c5: "\<exists>avg_loss run_speed.
               calculate_metrics compute_bleu now ll ms (first # rest) =
                 Inr ([(''bleu'', fst b)], avg_loss, run_speed)"
    if "ms \<noteq> [] \<and> set ms \<subseteq> {''bleu''} \<and>
          compute_bleu (labels acc) (results acc) 1 = Inr b"
    using metric_scores_bleu [of ms compute_bleu "labels acc" "results acc" b "[]"]
      that assms
    by (simp add: calculate_metrics_def Let_def)
  from c1 c2 c3 c4 c5 show ?thesis by blast
qed

theorem first_unsupported_metric_raises_ValueError_witness:
  "run_states_loop example_labels acc0 [example_eval_state] = Inr example_acc \<and>
   (1 :: real) \<noteq> run_time_begin example_eval_state \<and>
   TextGenerationTask_init (\<lambda>kw. Inr (example_base True)) (\<lambda>v. ''main'')
     (example_args\<lparr>arg_metrics_choices := Some (MetricName ''default'')\<rparr>) =
   TextGenerationTask_init (\<lambda>kw. Inr (example_base True)) (\<lambda>v. ''main'')
     (example_args\<lparr>arg_metrics_choices := Some (MetricList [''bleu''])\<rparr>) \<and>
   calculate_metrics example_bleu 1 example_labels [''acc'', ''bleu''] [example_eval_state] =
     Inl (ValueError (''Not Support Metric: '' @ [CHR 0x27] @ ''acc'' @ [CHR 0x27])) \<and>
   calculate_metrics example_bleu 1 example_labels [''bleu'', ''acc''] [example_eval_state] =
     Inl (ValueError (''Not Support Metric: '' @ [CHR 0x27] @ ''acc'' @ [CHR 0x27])) \<and>
   (\<exists>avg_loss run_speed.
      calculate_metrics example_bleu 1 example_labels [''bleu''] [example_eval_state] =
        Inr ([(''bleu'', 1)], avg_loss, run_speed))"
proof -
  have l: "run_states_loop example_labels acc0 [example_eval_state] = Inr example_acc"
    by (simp add: example_labels_def example_eval_state_def example_acc_def acc0_def
        run_state_step_def max_len_of_def label_and_result_def id_labels_def sample_ids_def
        slice_stop_def py_slice_def slice_bound_def py_index_def Let_def)
  have t: "(1 :: real) \<noteq> run_time_begin example_eval_state"
    by (simp add: example_eval_state_def)
  have b: "example_bleu (labels example_acc) (results example_acc) 1 = Inr (1, 1)"
    by (simp add: example_bleu_def example_acc_def)
  note th = first_unsupported_metric_raises_ValueError [OF l t]
  from th [where compute_bleu = example_bleu and m = "''acc''" and pre = "[]"
             and post = "[''bleu'']"]
  have w1: "calculate_metrics example_bleu 1 example_labels [''acc'', ''bleu'']
              [example_eval_state] =
            Inl (ValueError (''Not Support Metric: '' @ [CHR 0x27] @ ''acc'' @ [CHR 0x27]))"
    by simp
  from th [where compute_bleu = example_bleu and m = "''acc''" and pre = "[''bleu'']"
             and post = "[]" and b = "(1, 1)"] b
  have w2: "calculate_metrics example_bleu 1 example_labels [''bleu'', ''acc'']
              [example_eval_state] =
            Inl (ValueError (''Not Support Metric: '' @ [CHR 0x27] @ ''acc'' @ [CHR 0x27]))"
    by simp
  from th [where compute_bleu = example_bleu and ms = "[''bleu'']" and b = "(1, 1)"] b
  have w3: "\<exists>avg_loss run_speed.
      calculate_metrics example_bleu 1 example_labels [''bleu''] [example_eval_state] =
        Inr ([(''bleu'', 1)], avg_loss, run_speed)"
    by simp
  from th [where BaseTask_init = "\<lambda>kw. Inr (example_base True)"
             and block_program = "\<lambda>v. ''main''" and a = example_args]
  have w0: "TextGenerationTask_init (\<lambda>kw. Inr (example_base True)) (\<lambda>v. ''main'')
     (example_args\<lparr>arg_metrics_choices := Some (MetricName ''default'')\<rparr>) =
   TextGenerationTask_init (\<lambda>kw. Inr (example_base True)) (\<lambda>v. ''main'')
     (example_args\<lparr>arg_metrics_choices := Some (MetricList [''bleu''])\<rparr>)"
    by (rule conjunct1)
  show ?thesis
    by (rule conjI [OF l conjI [OF t conjI [OF w0 conjI [OF w1 conjI [OF w2 w3]]]]])
qed

text \<open>
  The claim without these conditions fails: with no run state \<open>_calculate_metrics\<close> raises
  IndexError, with no time used it raises ZeroDivisionError, and an exception of
  \<open>compute_bleu\<close> for a \<open>'bleu'\<close> that stands first comes before the ValueError.
\<close>

theorem unsupported_metric_other_exception_counterexample:
  "calculate_metrics example_bleu 1 example_labels [''acc''] [] = Inl IndexError \<and>
   calculate_metrics example_bleu 0 example_labels [''acc''] [example_eval_state] =
     Inl ZeroDivisionError \<and>
   calculate_metrics example_raising_bleu 1 example_labels [''bleu'', ''acc'']
     [example_eval_state] = Inl ZeroDivisionError"
  by (simp add: calculate_metrics_def acc0_def example_labels_def example_eval_state_def
      example_raising_bleu_def run_state_step_def max_len_of_def label_and_result_def
      id_labels_def sample_ids_def slice_stop_def py_slice_def slice_bound_def py_index_def
      Let_def)

section \<open>Properties of the post-processing and of the network\<close>

lemma comprehension_nth:
  "comprehension f xs = Inr ys \<Longrightarrow> i < length xs \<Longrightarrow> f (xs ! i) = Inr (ys ! i)"
  by (auto dest!: comprehension_Inr_all2 simp: list_all2_conv_all_nth)


lemma py_index_nat_Inr: "py_index xs (int i) = Inr x \<Longrightarrow> i < length xs \<and> x = xs ! i"
  by (auto simp: py_index_def split: if_splits)

lemma py_slice_to_take: "2 \<le> n \<Longrightarrow> py_slice_to xs (n - 2) = take (nat (n - 2)) xs"
  by (auto simp: py_slice_to_def slice_bound_def min_def)


lemma length_np_T: "length (np_T nb rows) = nb"
  by (simp add: np_T_def)

lemma seq_result_truncated:
  assumes "seq_result ll seq_lens i beam_infer = Inr toks" "2 \<le> seq_lens ! i"
  shows "comprehension (py_index ll) (take (nat (seq_lens ! i - 2)) beam_infer) = Inr toks"
    and "length toks \<le> nat (seq_lens ! i - 2)"
    and "seq_lens ! i = 2 \<Longrightarrow> toks = []"
proof -
  from assms(1) obtain n where n: "py_index seq_lens (int i) = Inr n"
    and c: "comprehension (py_index ll) (py_slice_to beam_infer (n - 2)) = Inr toks"
    by (auto simp: seq_result_def split: sum.splits)
  from py_index_nat_Inr [OF n] have "n = seq_lens ! i" by simp
  with c assms(2) show 1: "comprehension (py_index ll) (take (nat (seq_lens ! i - 2)) beam_infer) = Inr toks"
    by (simp add: py_slice_to_take)
  from comprehension_length [OF 1] show 2: "length toks \<le> nat (seq_lens ! i - 2)" by simp
  show "toks = []" if "seq_lens ! i = 2" using 2 that by simp
qed

lemma beam_result_nth:
  assumes "beam_result ll seq_lens nb i sample_infers = Inr sr"
  shows "length sr = nb"
    and "j < nb \<Longrightarrow> seq_result ll seq_lens i (np_T nb sample_infers ! j) = Inr (sr ! j)"
  using comprehension_length [OF assms [unfolded beam_result_def]]
        comprehension_nth [OF assms [unfolded beam_result_def], of j]
  by (simp_all add: length_np_T)

lemma batch_postprocessing_nth:
  assumes "batch_postprocessing ll st = Inr b"
  shows "length b = length (samples (fetched_infers st))"
    and "i < length (samples (fetched_infers st)) \<Longrightarrow>
           beam_result ll (seq_lens_of st) (beams (fetched_infers st)) i
             (batch_infers_of st ! i) = Inr (b ! i)"
  using comprehension_length [OF assms [unfolded batch_postprocessing_def]]
        comprehension_nth [OF assms [unfolded batch_postprocessing_def], of i]
  by (simp_all add: batch_infers_of_def nth_enumerate_eq)

lemma postprocessing_batches:
  assumes "postprocessing ll rs = Inr res"
  shows "\<exists>bs. res = concat bs \<and> length bs = length rs \<and>
           (\<forall>k < length rs. batch_postprocessing ll (rs ! k) = Inr (bs ! k))"
proof -
  from assms obtain bs where bs: "comprehension (batch_postprocessing ll) rs = Inr bs"
    and "res = concat bs"
    by (auto simp: postprocessing_def split: sum.splits)
  with comprehension_length [OF bs] comprehension_nth [OF bs] show ?thesis by auto
qed












lemma and_then_Inr: "and_then m f = Inr y \<longleftrightarrow> (\<exists>x. m = Inr x \<and> f x = Inr y)"
  by (cases m) (simp_all add: and_then_def)

lemma framework_Inr: "framework raises c r = Inr x \<longleftrightarrow> raises c = None \<and> x = r"
  by (auto simp: framework_def split: option.splits)

lemma layer_Inr: "layer raises v = Inr x \<longleftrightarrow> raises (Layer v) = None \<and> x = v"
  by (simp add: layer_def framework_Inr)





text \<open>
  What \<open>_build_net\<close> hands to the framework's decoder in the predict phase: the
  positions of the start and end tokens in the label list, the beam width and, as
  \<open>max_step_num\<close>, the task's \<open>beam_max_step_num\<close>, which the constructor sets to 30
  when it is left out. How many steps the framework then runs is not decided here.
\<close>

lemma build_net_decoder_configuration:
  assumes "build_net raises shape self = Inr n" and "is_predict_phase (base self)"
  shows "\<exists>d. beam_search_of (outputs n) = Some (d, beam_max_step_num self) \<and>
           list_index (label_list (base self)) (start_token self) = Inr (start_token_id d) \<and>
           list_index (label_list (base self)) (end_token self) = Inr (end_token_id d) \<and>
           decoder_beam_size d = beam_size self"
  using assms
  by (auto simp: build_net_def build_predict_net_def and_then_Inr framework_Inr layer_Inr
      Let_def split: if_splits)

lemma default_beam_max_step_num:
  assumes "arg_beam_max_step_num a = None"
    and "BaseTask_init (init_base_kwargs block_program a) = Inr b"
  shows "\<exists>t. TextGenerationTask_init BaseTask_init block_program a = Inr t \<and>
             beam_max_step_num t = 30"
  using assms by (simp add: TextGenerationTask_init_def default_def)




section \<open>Truncation to the sequence length\<close>

lemma slice_stop_exact:
  assumes "2 \<le> sint len_i" "int (i * max_len) + sint len_i - 2 < 2 ^ 63"
  shows "slice_stop i max_len len_i = int (i * max_len) + sint len_i - 2"
proof -
  have "(word_of_nat (i * max_len) + len_i - 2 :: int64) =
        word_of_int (int (i * max_len) + sint len_i - 2)"
    by simp
  moreover have "sint (word_of_int (int (i * max_len) + sint len_i - 2) :: int64) =
        int (i * max_len) + sint len_i - 2"
    unfolding sint_sbintrunc'
    using assms by (intro signed_take_bit_int_eq_self) auto
  ultimately show ?thesis by (simp add: slice_stop_def)
qed

lemma py_slice_window:
  "py_slice xs (int a) (int (a + b)) = take b (drop a xs)"
proof -
  have "take (min (a + b) (length xs)) xs = take (a + b) xs"
    by (simp add: min_def)
  moreover have "drop (min a (length xs)) (take (a + b) xs) = drop a (take (a + b) xs)"
    by (cases "a \<le> length xs") (simp_all add: min_def)
  moreover have "drop a (take (a + b) xs) = take b (drop a xs)"
    by (simp add: drop_take)
  ultimately show ?thesis
    by (simp add: py_slice_def slice_bound_def nat_int_add)
qed

lemma sample_ids_take_drop:
  assumes "2 \<le> sint len_i" "int (i * max_len) + sint len_i - 2 < 2 ^ 63"
  shows "sample_ids arr i max_len len_i = take (nat (sint len_i - 2)) (drop (i * max_len) arr)"
proof -
  have "int (i * max_len) + sint len_i - 2 = int (i * max_len + nat (sint len_i - 2))"
    using assms(1) by simp
  then show ?thesis
    using py_slice_window [of arr "i * max_len" "nat (sint len_i - 2)"] assms
    by (simp only: sample_ids_def slice_stop_exact)
qed

lemma label_and_result_truncated:
  assumes "label_and_result ll st max_len i = Inr p"
    and "2 \<le> sint (np_lens st ! i)"
    and "int (i * max_len) + sint (np_lens st ! i) - 2 < 2 ^ 63"
  shows "id_labels ll (take (nat (sint (np_lens st ! i) - 2)) (drop (i * max_len) (np_labels st)))
           = Inr (fst p)"
    and "id_labels ll (take (nat (sint (np_lens st ! i) - 2)) (drop (i * max_len) (np_infers st)))
           = Inr (snd p)"
    and "length (fst p) \<le> nat (sint (np_lens st ! i) - 2)"
    and "length (snd p) \<le> nat (sint (np_lens st ! i) - 2)"
proof -
  from assms(1) have
    "id_labels ll (sample_ids (np_labels st) i max_len (np_lens st ! i)) = Inr (fst p)"
    "id_labels ll (sample_ids (np_infers st) i max_len (np_lens st ! i)) = Inr (snd p)"
    by (auto simp: label_and_result_def split: sum.splits)
  then show 1: "id_labels ll (take (nat (sint (np_lens st ! i) - 2)) (drop (i * max_len) (np_labels st)))
           = Inr (fst p)"
    and 2: "id_labels ll (take (nat (sint (np_lens st ! i) - 2)) (drop (i * max_len) (np_infers st)))
           = Inr (snd p)"
    by (simp_all add: sample_ids_take_drop [OF assms(2,3)])
  from comprehension_length [OF 1 [unfolded id_labels_def]]
  show "length (fst p) \<le> nat (sint (np_lens st ! i) - 2)" by simp
  from comprehension_length [OF 2 [unfolded id_labels_def]]
  show "length (snd p) \<le> nat (sint (np_lens st ! i) - 2)" by simp
qed

lemma run_state_step_pairs:
  assumes "run_state_step ll acc st = Inr acc'"
  shows "\<exists>pairs.
           comprehension (label_and_result ll st (max_len_of st)) [0..<length (np_lens st)] =
             Inr pairs \<and>
           labels acc' = labels acc @ map fst pairs \<and>
           results acc' = results acc @ map snd pairs"
  using assms by (auto simp: run_state_step_def Let_def split: if_splits sum.splits)

lemma run_states_loop_pairs:
  assumes "run_states_loop ll acc rs = Inr acc'"
  shows "\<exists>ps. length ps = length rs \<and>
           (\<forall>k < length rs.
              comprehension (label_and_result ll (rs ! k) (max_len_of (rs ! k)))
                [0..<length (np_lens (rs ! k))] = Inr (ps ! k)) \<and>
           labels acc' = labels acc @ concat (map (map fst) ps) \<and>
           results acc' = results acc @ concat (map (map snd) ps)"
  using assms
proof (induction rs arbitrary: acc)
  case Nil
  then show ?case by simp
next
  case (Cons st rs)
  from Cons.prems obtain acc1 where step: "run_state_step ll acc st = Inr acc1"
    and rest: "run_states_loop ll acc1 rs = Inr acc'"
    by (auto split: sum.splits)
  from run_state_step_pairs [OF step] obtain pairs where pairs:
    "comprehension (label_and_result ll st (max_len_of st)) [0..<length (np_lens st)] = Inr pairs"
    "labels acc1 = labels acc @ map fst pairs" "results acc1 = results acc @ map snd pairs"
    by blast
  from Cons.IH [OF rest] obtain ps where ps: "length ps = length rs"
    "\<And>k. k < length rs \<Longrightarrow>
       comprehension (label_and_result ll (rs ! k) (max_len_of (rs ! k)))
         [0..<length (np_lens (rs ! k))] = Inr (ps ! k)"
    "labels acc' = labels acc1 @ concat (map (map fst) ps)"
    "results acc' = results acc1 @ concat (map (map snd) ps)"
    by blast
  have "\<forall>k < length (st # rs).
          comprehension (label_and_result ll ((st # rs) ! k) (max_len_of ((st # rs) ! k)))
            [0..<length (np_lens ((st # rs) ! k))] = Inr ((pairs # ps) ! k)"
    using pairs(1) ps(2) by (auto simp: nth_Cons split: nat.splits)
  moreover have "length (pairs # ps) = length (st # rs)" using ps(1) by simp
  moreover have "labels acc' = labels acc @ concat (map (map fst) (pairs # ps))"
    using pairs(2) ps(3) by simp
  moreover have "results acc' = results acc @ concat (map (map snd) (pairs # ps))"
    using pairs(3) ps(4) by simp
  ultimately show ?case by blast
qed

text \<open>
  C10. For every sample \<open>i\<close> with \<open>seq_lens[i] \<ge> 2\<close>, \<open>_postprocessing\<close> maps to labels
  the first \<open>seq_lens[i] - 2\<close> ids of every beam, so that every returned sequence has at
  most \<open>seq_lens[i] - 2\<close> tokens and is empty when \<open>seq_lens[i]\<close> is 2. In
  \<open>_calculate_metrics\<close>, for every sample with \<open>np_lens[i] \<ge> 2\<close> whose slice bound does
  not overflow, the label and the result are the labels of the first \<open>np_lens[i] - 2\<close>
  ids of the sample's rows of \<open>np_labels\<close> and of \<open>np_infers\<close>.
\<close>

theorem sequences_truncated_to_seq_len_minus_2:
  assumes "postprocessing ll rs = Inr res"
    and "run_states_loop dl acc0 es = Inr acc"
  shows "(\<exists>bs. res = concat bs \<and> length bs = length rs \<and>
            (\<forall>k < length rs.
               length (bs ! k) = length (samples (fetched_infers (rs ! k))) \<and>
               (\<forall>i < length (samples (fetched_infers (rs ! k))).
                  length (bs ! k ! i) = beams (fetched_infers (rs ! k)) \<and>
                  (\<forall>j < beams (fetched_infers (rs ! k)).
                     2 \<le> seq_lens_of (rs ! k) ! i \<longrightarrow>
                       comprehension (py_index ll)
                         (take (nat (seq_lens_of (rs ! k) ! i - 2)) (beam_ids (rs ! k) i j)) =
                         Inr (bs ! k ! i ! j) \<and>
                       length (bs ! k ! i ! j) \<le> nat (seq_lens_of (rs ! k) ! i - 2) \<and>
                       (seq_lens_of (rs ! k) ! i = 2 \<longrightarrow> bs ! k ! i ! j = []))))) \<and>
         (\<exists>lbs rbs. labels acc = concat lbs \<and> results acc = concat rbs \<and>
            length lbs = length es \<and> length rbs = length es \<and>
            (\<forall>k < length es.
               length (lbs ! k) = length (np_lens (es ! k)) \<and>
               length (rbs ! k) = length (np_lens (es ! k)) \<and>
               (\<forall>i < length (np_lens (es ! k)).
                  2 \<le> sint (np_lens (es ! k) ! i) \<and>
                  int (i * max_len_of (es ! k)) + sint (np_lens (es ! k) ! i) - 2 < 2 ^ 63 \<longrightarrow>
                    id_labels dl
                      (take (nat (sint (np_lens (es ! k) ! i) - 2))
                         (drop (i * max_len_of (es ! k)) (np_labels (es ! k)))) =
                      Inr (lbs ! k ! i) \<and>
                    id_labels dl
                      (take (nat (sint (np_lens (es ! k) ! i) - 2))
                         (drop (i * max_len_of (es ! k)) (np_infers (es ! k)))) =
                      Inr (rbs ! k ! i) \<and>
                    length (lbs ! k ! i) \<le> nat (sint (np_lens (es ! k) ! i) - 2) \<and>
                    length (rbs ! k ! i) \<le> nat (sint (np_lens (es ! k) ! i) - 2))))"
    (is "?A \<and> ?B")
proof -
  have a: ?A
  proof -
    from postprocessing_batches [OF assms(1)] obtain bs where bs: "res = concat bs"
      "length bs = length rs"
      "\<And>k. k < length rs \<Longrightarrow> batch_postprocessing ll (rs ! k) = Inr (bs ! k)"
      by blast
    have "length (bs ! k ! i) = beams (fetched_infers (rs ! k)) \<and>
          (\<forall>j < beams (fetched_infers (rs ! k)).
             2 \<le> seq_lens_of (rs ! k) ! i \<longrightarrow>
               comprehension (py_index ll)
                 (take (nat (seq_lens_of (rs ! k) ! i - 2)) (beam_ids (rs ! k) i j)) =
                 Inr (bs ! k ! i ! j) \<and>
               length (bs ! k ! i ! j) \<le> nat (seq_lens_of (rs ! k) ! i - 2) \<and>
               (seq_lens_of (rs ! k) ! i = 2 \<longrightarrow> bs ! k ! i ! j = []))"
      if k: "k < length rs" and i: "i < length (samples (fetched_infers (rs ! k)))" for k i
    proof -
      note br = batch_postprocessing_nth(2) [OF bs(3) [OF k] i]
      show ?thesis
        using beam_result_nth(1) [OF br] seq_result_truncated [OF beam_result_nth(2) [OF br]]
        by (simp add: beam_ids_def)
    qed
    moreover have "length (bs ! k) = length (samples (fetched_infers (rs ! k)))"
      if "k < length rs" for k
      using batch_postprocessing_nth(1) [OF bs(3) [OF that]] .
    ultimately show ?thesis using bs(1,2) by blast
  qed
  have b: ?B
  proof -
    from run_states_loop_pairs [of dl acc0 es acc, OF assms(2)] obtain ps where ps: "length ps = length es"
      "\<And>k. k < length es \<Longrightarrow>
         comprehension (label_and_result dl (es ! k) (max_len_of (es ! k)))
           [0..<length (np_lens (es ! k))] = Inr (ps ! k)"
      "labels acc = concat (map (map fst) ps)"
      "results acc = concat (map (map snd) ps)"
      by (auto simp: acc0_def)
    let ?lbs = "map (map fst) ps" and ?rbs = "map (map snd) ps"
    have len: "length (ps ! k) = length (np_lens (es ! k))" if "k < length es" for k
      using comprehension_length [OF ps(2) [OF that]] by simp
    have elt: "label_and_result dl (es ! k) (max_len_of (es ! k)) i = Inr (ps ! k ! i)"
      if "k < length es" "i < length (np_lens (es ! k))" for k i
      using comprehension_nth [OF ps(2) [OF that(1)], of i] that(2) by simp
    have "length (?lbs ! k) = length (np_lens (es ! k)) \<and>
          length (?rbs ! k) = length (np_lens (es ! k)) \<and>
          (\<forall>i < length (np_lens (es ! k)).
             2 \<le> sint (np_lens (es ! k) ! i) \<and>
             int (i * max_len_of (es ! k)) + sint (np_lens (es ! k) ! i) - 2 < 2 ^ 63 \<longrightarrow>
               id_labels dl
                 (take (nat (sint (np_lens (es ! k) ! i) - 2))
                    (drop (i * max_len_of (es ! k)) (np_labels (es ! k)))) =
                 Inr (?lbs ! k ! i) \<and>
               id_labels dl
                 (take (nat (sint (np_lens (es ! k) ! i) - 2))
                    (drop (i * max_len_of (es ! k)) (np_infers (es ! k)))) =
                 Inr (?rbs ! k ! i) \<and>
               length (?lbs ! k ! i) \<le> nat (sint (np_lens (es ! k) ! i) - 2) \<and>
               length (?rbs ! k ! i) \<le> nat (sint (np_lens (es ! k) ! i) - 2))"
      if k: "k < length es" for k
    proof (intro conjI allI impI)
      show "length (?lbs ! k) = length (np_lens (es ! k))"
        and "length (?rbs ! k) = length (np_lens (es ! k))"
        using k ps(1) len by simp_all
    next
      fix i
      assume i: "i < length (np_lens (es ! k))"
        and h: "2 \<le> sint (np_lens (es ! k) ! i) \<and>
             int (i * max_len_of (es ! k)) + sint (np_lens (es ! k) ! i) - 2 < 2 ^ 63"
      note t = label_and_result_truncated [OF elt [OF k i] conjunct1 [OF h] conjunct2 [OF h]]
      have f: "?lbs ! k ! i = fst (ps ! k ! i)" "?rbs ! k ! i = snd (ps ! k ! i)"
        using k i ps(1) len by simp_all
      show "id_labels dl
                 (take (nat (sint (np_lens (es ! k) ! i) - 2))
                    (drop (i * max_len_of (es ! k)) (np_labels (es ! k)))) =
                 Inr (?lbs ! k ! i)"
        using t(1) f by simp
      show "id_labels dl
                 (take (nat (sint (np_lens (es ! k) ! i) - 2))
                    (drop (i * max_len_of (es ! k)) (np_infers (es ! k)))) =
                 Inr (?rbs ! k ! i)"
        using t(2) f by simp
      show "length (?lbs ! k ! i) \<le> nat (sint (np_lens (es ! k) ! i) - 2)"
        using t(3) f by simp
      show "length (?rbs ! k ! i) \<le> nat (sint (np_lens (es ! k) ! i) - 2)"
        using t(4) f by simp
    qed
    moreover have "length ?lbs = length es" "length ?rbs = length es"
      using ps(1) by simp_all
    ultimately show ?thesis
      using ps(3,4) by blast
  qed
  from a b show ?thesis by (rule conjI)
qed

theorem sequences_truncated_to_seq_len_minus_2_witness:
  "postprocessing example_labels [example_predict_state] = Inr [[[''a'', ''b''], [''b'', ''a'']]] \<and>
   run_states_loop example_labels acc0 [example_eval_state] = Inr example_acc \<and>
   (\<exists>bs. [[[''a'', ''b''], [''b'', ''a'']]] = concat bs \<and> length bs = length [example_predict_state] \<and>
            (\<forall>k < length [example_predict_state].
               length (bs ! k) = length (samples (fetched_infers ([example_predict_state] ! k))) \<and>
               (\<forall>i < length (samples (fetched_infers ([example_predict_state] ! k))).
                  length (bs ! k ! i) = beams (fetched_infers ([example_predict_state] ! k)) \<and>
                  (\<forall>j < beams (fetched_infers ([example_predict_state] ! k)).
                     2 \<le> seq_lens_of ([example_predict_state] ! k) ! i \<longrightarrow>
                       comprehension (py_index example_labels)
                         (take (nat (seq_lens_of ([example_predict_state] ! k) ! i - 2)) (beam_ids ([example_predict_state] ! k) i j)) =
                         Inr (bs ! k ! i ! j) \<and>
                       length (bs ! k ! i ! j) \<le> nat (seq_lens_of ([example_predict_state] ! k) ! i - 2) \<and>
                       (seq_lens_of ([example_predict_state] ! k) ! i = 2 \<longrightarrow> bs ! k ! i ! j = []))))) \<and>
   (\<exists>lbs rbs. labels example_acc = concat lbs \<and> results example_acc = concat rbs \<and>
            length lbs = length [example_eval_state] \<and> length rbs = length [example_eval_state] \<and>
            (\<forall>k < length [example_eval_state].
               length (lbs ! k) = length (np_lens ([example_eval_state] ! k)) \<and>
               length (rbs ! k) = length (np_lens ([example_eval_state] ! k)) \<and>
               (\<forall>i < length (np_lens ([example_eval_state] ! k)).
                  2 \<le> sint (np_lens ([example_eval_state] ! k) ! i) \<and>
                  int (i * max_len_of ([example_eval_state] ! k)) + sint (np_lens ([example_eval_state] ! k) ! i) - 2 < 2 ^ 63 \<longrightarrow>
                    id_labels example_labels
                      (take (nat (sint (np_lens ([example_eval_state] ! k) ! i) - 2))
                         (drop (i * max_len_of ([example_eval_state] ! k)) (np_labels ([example_eval_state] ! k)))) =
                      Inr (lbs ! k ! i) \<and>
                    id_labels example_labels
                      (take (nat (sint (np_lens ([example_eval_state] ! k) ! i) - 2))
                         (drop (i * max_len_of ([example_eval_state] ! k)) (np_infers ([example_eval_state] ! k)))) =
                      Inr (rbs ! k ! i) \<and>
                    length (lbs ! k ! i) \<le> nat (sint (np_lens ([example_eval_state] ! k) ! i) - 2) \<and>
                    length (rbs ! k ! i) \<le> nat (sint (np_lens ([example_eval_state] ! k) ! i) - 2))))"
proof -
  have h1: "postprocessing example_labels [example_predict_state] =
              Inr [[[''a'', ''b''], [''b'', ''a'']]]"
    by (simp add: postprocessing_def batch_postprocessing_def beam_result_def seq_result_def
        batch_infers_of_def seq_lens_of_def np_T_def py_slice_to_def slice_bound_def
        py_index_def example_predict_state_def example_labels_def astype_int32_def
        upt_rec [of 0] upt_rec [of 1] upt_rec [of "Suc 0"])
  have h2: "run_states_loop example_labels acc0 [example_eval_state] = Inr example_acc"
    by (simp add: example_labels_def example_eval_state_def example_acc_def acc0_def
        run_state_step_def max_len_of_def label_and_result_def id_labels_def sample_ids_def
        slice_stop_def py_slice_def slice_bound_def py_index_def Let_def)
  show ?thesis
    by (rule conjI [OF h1 conjI [OF h2
          sequences_truncated_to_seq_len_minus_2 [OF h1 h2]]])
qed

end
